theory Spec2Isabelle
  imports Main "HOL-Library.Word" "HOL-Library.Multiset"
begin

section \<open>Data model\<close>

text \<open>
  The ledger service is written in Go. Its \<^verbatim>\<open>int\<close> is the 64-bit two's-complement
  integer of the platforms the service is built for, and \<^verbatim>\<open>int64\<close> is the same
  type; both are \<open>64 word\<close> here, so \<open>+\<close> wraps around exactly as Go's does, and
  every comparison of the source is a comparison of the signed values (\<open>sint\<close>).
  A \<^verbatim>\<open>time.Time\<close> value is abstract: the numbers that stand for the values are names
  only, and nothing below compares two of them by magnitude.
\<close>

type_synonym go_int = "64 word"
type_synonym int64 = "64 word"
type_synonym time = nat

text \<open>\<^verbatim>\<open>type TransactionPurpose string\<close>\<close>

type_synonym TransactionPurpose = string

definition ACHCredit :: TransactionPurpose where "ACHCredit = ''achcredit''"
definition ACHDebit :: TransactionPurpose where "ACHDebit = ''achdebit''"
definition Fee :: TransactionPurpose where "Fee = ''fee''"
definition Interest :: TransactionPurpose where "Interest = ''interest''"
definition Transfer :: TransactionPurpose where "Transfer = ''transfer''"
definition Wire :: TransactionPurpose where "Wire = ''wire''"

record transactionLine =
  AccountId :: string
  Purpose :: TransactionPurpose
  Amount :: go_int

record transaction =
  ID :: string
  Timestamp :: time
  Lines :: "transactionLine list"

text \<open>
  \<^verbatim>\<open>gl.Account\<close> is declared in an imported package. \<^verbatim>\<open>checkBalance\<close> reads two of its
  fields: \<^verbatim>\<open>ID\<close> (a string) and \<^verbatim>\<open>Balance\<close> (an \<^verbatim>\<open>int64\<close>, as the conversion
  \<^verbatim>\<open>int64(tx.Lines[j].Amount)\<close> at the comparison shows).
\<close>

record Account =
  Account_ID :: string
  Balance :: int64

section \<open>Errors and results\<close>

text \<open>
  An error reported by the database driver: \<^verbatim>\<open>sql.ErrNoRows\<close>, SQLite's
  ``integer overflow'' raised by \<^verbatim>\<open>sum()\<close>, or any other failure.
\<close>

datatype dberr = ErrNoRows | IntegerOverflow | DriverError string

text \<open>
  One constructor for each \<^verbatim>\<open>fmt.Errorf\<close> of the source, carrying what the message
  formats. Where the message ends in \<^verbatim>\<open>rollback=%v\<close> the last argument is the value
  of \<^verbatim>\<open>tx.Rollback()\<close>: \<open>None\<close> when the rollback succeeded.
\<close>

datatype error =
    UnknownPurpose string
  | InvalidLines string nat int
  | CheckBalanceInvalidInput nat nat
  | InsufficientFunds string
  | NoTransactionLines string
  | TransactionInvalid string error
  | CreateBegin dberr
  | CreatePrepare dberr "dberr option"
  | CreateInsert dberr "dberr option"
  | CreateLinePrepare string string dberr "dberr option"
  | CreateLineInsert string string dberr "dberr option"
  | CreateCommit dberr
  | GetTransactionTimestampPrepare dberr
  | GetTransactionTimestampQuery dberr
  | GetTransactionPrepare dberr
  | GetTransactionQuery dberr
  | GetTransactionScan string dberr
  | GetTransactionRows dberr
  | GetAccountTransactionsBegin dberr
  | GetAccountTransactionsPrepare dberr "dberr option"
  | GetAccountTransactionsQuery dberr "dberr option"
  | GetAccountTransactionsScan dberr "dberr option"
  | GetAccountTransactionsErr dberr "dberr option"
  | GetAccountTransactionsLooping error "dberr option"
  | GetAccountTransactionsCommit dberr "dberr option"
  | GetAccountBalanceFailed dberr

text \<open>A run-time panic of Go: the function does not return.\<close>

datatype panic = NilPointerDereference

datatype 'a result = Ok 'a | Err error | Panic panic

section \<open>Validation\<close>

text \<open>\<^verbatim>\<open>func (p TransactionPurpose) validate() error\<close>\<close>

definition TransactionPurpose_validate :: "TransactionPurpose \<Rightarrow> unit result" where
  "TransactionPurpose_validate p =
     (if p = ACHCredit \<or> p = ACHDebit \<or> p = Fee \<or> p = Interest \<or> p = Transfer \<or> p = Wire
      then Ok ()
      else Err (UnknownPurpose p))"

text \<open>
  The loop of \<^verbatim>\<open>transaction.validate\<close>:
  \<^verbatim>\<open>sum := 0; for i := range t.Lines { sum += t.Lines[i].Amount }\<close>
\<close>

fun sum_amounts :: "transactionLine list \<Rightarrow> go_int \<Rightarrow> go_int" where
  "sum_amounts [] s = s"
| "sum_amounts (l # ls) s = sum_amounts ls (s + Amount l)"

text \<open>\<^verbatim>\<open>func (t transaction) validate() error\<close>\<close>

definition validate :: "transaction \<Rightarrow> unit result" where
  "validate t =
     (let s = sum_amounts (Lines t) 0
      in if s = 0 then Ok ()
         else Err (InvalidLines (ID t) (length (Lines t)) (sint s)))"

section \<open>The funds check\<close>

text \<open>
  The inner loop of \<^verbatim>\<open>checkBalance\<close> for the account \<open>a\<close>: the first line whose
  account matches decides (\<^verbatim>\<open>return\<close> or \<^verbatim>\<open>goto sufficient\<close>); falling out of the
  loop is the ``no match'' error.
\<close>

fun check_lines :: "Account \<Rightarrow> transactionLine list \<Rightarrow> unit result" where
  "check_lines a [] = Err (NoTransactionLines (Account_ID a))"
| "check_lines a (l # ls) =
     (if Account_ID a = AccountId l
      then (if sint (Balance a) < sint (Amount l)
            then Err (InsufficientFunds (Account_ID a))
            else Ok ())
      else check_lines a ls)"

text \<open>
  The outer loop. \<^verbatim>\<open>accounts\<close> is a slice of pointers: \<open>None\<close> is the nil pointer,
  whose dereference \<^verbatim>\<open>accounts[i].Balance\<close> panics.
\<close>

fun check_accounts :: "Account option list \<Rightarrow> transactionLine list \<Rightarrow> unit result" where
  "check_accounts [] ls = Ok ()"
| "check_accounts (None # as) ls = Panic NilPointerDereference"
| "check_accounts (Some a # as) ls =
     (if 0 < sint (Balance a)
      then (case check_lines a ls of
              Ok u \<Rightarrow> check_accounts as ls
            | Err e \<Rightarrow> Err e
            | Panic p \<Rightarrow> Panic p)
      else check_accounts as ls)"

text \<open>\<^verbatim>\<open>func checkBalance(accounts []*gl.Account, tx transaction) error\<close>\<close>

definition checkBalance :: "Account option list \<Rightarrow> transaction \<Rightarrow> unit result" where
  "checkBalance accounts tx =
     (if length accounts < 2 \<or> length (Lines tx) = 0
      then Err (CheckBalanceInvalidInput (length accounts) (length (Lines tx)))
      else check_accounts accounts (Lines tx))"

section \<open>The ledger database\<close>

text \<open>
  The two tables of the migrations:
  \<^verbatim>\<open>transactions(transaction_id primart key, timestamp, created_at, deleted_at)\<close> and
  \<^verbatim>\<open>transaction_lines(transaction_id, account_id, purpose, amount integer, created_at, deleted_at)\<close>.
  Neither declares a constraint that SQLite enforces (\<^verbatim>\<open>primart key\<close> is read as a
  type name), so a table is the list of its rows in insertion order, duplicates allowed.
  A \<^verbatim>\<open>deleted_at\<close> of \<open>None\<close> is SQL's NULL: the row is not deleted.
\<close>

record transactions_row =
  t_transaction_id :: string
  t_timestamp :: time
  t_created_at :: time
  t_deleted_at :: "time option"

record transaction_lines_row =
  l_transaction_id :: string
  l_account_id :: string
  l_purpose :: string
  l_amount :: int64
  l_created_at :: time
  l_deleted_at :: "time option"

record database =
  transactions :: "transactions_row list"
  transaction_lines :: "transaction_lines_row list"

text \<open>
  What the code cannot decide is a parameter: the outcome of every call into
  \<^verbatim>\<open>database/sql\<close> and every reading of the clock. Within one \<^verbatim>\<open>sql.Tx\<close> the
  statements are numbered in the order of their \<^verbatim>\<open>tx.Prepare\<close> calls, from 0:
  \<open>prepare_err d k\<close> is the error of the \<open>k\<close>-th \<^verbatim>\<open>Prepare\<close> (\<open>None\<close> is Go's nil),
  \<open>exec_err d k\<close> and \<open>query_err d k\<close> the error of running statement \<open>k\<close>,
  \<open>scan_err d k r\<close> the error of scanning row \<open>r\<close> of its result and \<open>rows_err d k\<close>
  the value of its \<^verbatim>\<open>rows.Err()\<close>. \<open>now d n\<close> is the \<open>n\<close>-th value of \<^verbatim>\<open>time.Now()\<close>.
\<close>

record driver =
  begin_err :: "dberr option"
  prepare_err :: "nat \<Rightarrow> dberr option"
  exec_err :: "nat \<Rightarrow> dberr option"
  query_err :: "nat \<Rightarrow> dberr option"
  scan_err :: "nat \<Rightarrow> nat \<Rightarrow> dberr option"
  rows_err :: "nat \<Rightarrow> dberr option"
  commit_err :: "dberr option"
  rollback_err :: "dberr option"
  now :: "nat \<Rightarrow> time"

text \<open>
  Two conversions that SQLite makes on stored values are parameters too.
  The declared type \<^verbatim>\<open>primart key\<close> gives the column \<^verbatim>\<open>transactions.transaction_id\<close>
  NUMERIC affinity: a text that is a well-formed number literal is stored, and compared, as
  that number (so that \<^verbatim>\<open>'7'\<close> and \<^verbatim>\<open>'07'\<close> are the same key), any other text as
  it is. \<open>numeric_affinity q s\<close> is the value stored for the text \<open>s\<close>, in a canonical
  form: two texts are the same key exactly when their forms are equal. The columns of
  \<^verbatim>\<open>transaction_lines\<close> that hold ids have no declared type and compare as texts.
  \<open>created_after q x y\<close> says that the value stored for the time \<open>x\<close> is greater than
  the one stored for \<open>y\<close> in the order of \<^verbatim>\<open>order by created_at\<close>: SQLite compares the
  texts that the driver wrote, zone offset included, not the instants. Only the strict
  part of the relation is used, so a value never sorts before itself.
\<close>

record sqlite =
  numeric_affinity :: "string \<Rightarrow> string"
  created_after :: "time \<Rightarrow> time \<Rightarrow> bool"

text \<open>The driver under which every call succeeds, with the clock \<open>clock\<close>.\<close>

definition no_faults :: "(nat \<Rightarrow> time) \<Rightarrow> driver" where
  "no_faults clock =
     \<lparr>begin_err = None, prepare_err = (\<lambda>k. None), exec_err = (\<lambda>k. None),
      query_err = (\<lambda>k. None), scan_err = (\<lambda>k r. None), rows_err = (\<lambda>k. None),
      commit_err = None, rollback_err = None, now = clock\<rparr>"

subsection \<open>Posting a transaction\<close>

text \<open>
  The row that
  \<^verbatim>\<open>stmt.Exec(t.ID, t.Lines[i].AccountId, t.Lines[i].Purpose, t.Lines[i].Amount, time.Now())\<close>
  inserts; \<^verbatim>\<open>deleted_at\<close> is not among the columns of the statement and stays NULL.
\<close>

definition line_row :: "string \<Rightarrow> transactionLine \<Rightarrow> time \<Rightarrow> transaction_lines_row" where
  "line_row tid l created =
     \<lparr>l_transaction_id = tid, l_account_id = AccountId l, l_purpose = Purpose l,
      l_amount = Amount l, l_created_at = created, l_deleted_at = None\<rparr>"

text \<open>
  The loop of \<^verbatim>\<open>createTransaction\<close> over \<^verbatim>\<open>t.Lines\<close>; line \<open>i\<close> is statement
  \<open>Suc i\<close> of the \<^verbatim>\<open>sql.Tx\<close> and \<open>rows\<close> is the table \<^verbatim>\<open>transaction_lines\<close> as the
  open \<^verbatim>\<open>sql.Tx\<close> sees it. When \<^verbatim>\<open>tx.Prepare\<close> fails it returns a nil \<^verbatim>\<open>*sql.Stmt\<close>,
  and the error branch starts with \<^verbatim>\<open>stmt.Close()\<close> on it: \<^verbatim>\<open>(*Stmt).Close\<close> locks
  \<^verbatim>\<open>s.closemu\<close>, a field of the nil receiver, which panics before the \<^verbatim>\<open>return\<close> (and
  its \<^verbatim>\<open>tx.Rollback()\<close>) is reached. The error of that \<^verbatim>\<open>return\<close>,
  \<open>CreateLinePrepare\<close>, is therefore never produced.
\<close>

fun insert_lines ::
  "driver \<Rightarrow> string \<Rightarrow> nat \<Rightarrow> transactionLine list \<Rightarrow> transaction_lines_row list
     \<Rightarrow> transaction_lines_row list result" where
  "insert_lines d tid i [] rows = Ok rows"
| "insert_lines d tid i (l # ls) rows =
     (case prepare_err d (Suc i) of
        Some e \<Rightarrow> Panic NilPointerDereference
      | None \<Rightarrow>
          (case exec_err d (Suc i) of
             Some e \<Rightarrow> Err (CreateLineInsert tid (AccountId l) e (rollback_err d))
           | None \<Rightarrow>
               insert_lines d tid (Suc i) ls (rows @ [line_row tid l (now d (Suc i))])))"

text \<open>
  The rows that the loop has added when it completes: one for each line, in the order of
  the lines, the row of line \<open>i\<close> stamped with the reading \<open>Suc i\<close> of the clock.
\<close>

fun line_rows :: "driver \<Rightarrow> string \<Rightarrow> nat \<Rightarrow> transactionLine list \<Rightarrow> transaction_lines_row list" where
  "line_rows d tid i [] = []"
| "line_rows d tid i (l # ls) = line_row tid l (now d (Suc i)) # line_rows d tid (Suc i) ls"

text \<open>
  \<^verbatim>\<open>func (r *sqliteTransactionRepository) createTransaction(t transaction) error\<close>.
  The result is paired with the database that later readers see: the rows written inside
  the \<^verbatim>\<open>sql.Tx\<close> reach it at a successful \<^verbatim>\<open>tx.Commit()\<close> only. After a rollback, a
  failed commit or a panic the database is the one before the call.
\<close>

definition createTransaction ::
  "driver \<Rightarrow> database \<Rightarrow> transaction \<Rightarrow> unit result \<times> database" where
  "createTransaction d db t =
     (case validate t of
        Err e \<Rightarrow> (Err (TransactionInvalid (ID t) e), db)
      | Panic p \<Rightarrow> (Panic p, db)
      | Ok u \<Rightarrow>
     (case begin_err d of
        Some e \<Rightarrow> (Err (CreateBegin e), db)
      | None \<Rightarrow>
     (case prepare_err d 0 of
        Some e \<Rightarrow> (Err (CreatePrepare e (rollback_err d)), db)
      | None \<Rightarrow>
     (case exec_err d 0 of
        Some e \<Rightarrow> (Err (CreateInsert e (rollback_err d)), db)
      | None \<Rightarrow>
     (case insert_lines d (ID t) 0 (Lines t) (transaction_lines db) of
        Panic p \<Rightarrow> (Panic p, db)
      | Err e \<Rightarrow> (Err e, db)
      | Ok rows \<Rightarrow>
     (case commit_err d of
        Some e \<Rightarrow> (Err (CreateCommit e), db)
      | None \<Rightarrow>
          (Ok (),
           \<lparr>transactions = transactions db @
              [\<lparr>t_transaction_id = ID t, t_timestamp = Timestamp t,
                t_created_at = now d 0, t_deleted_at = None\<rparr>],
            transaction_lines = rows\<rparr>)))))))"

subsection \<open>Reading a transaction\<close>

text \<open>
  The loop \<^verbatim>\<open>for rows.Next()\<close> of \<^verbatim>\<open>getTransaction\<close> over the result of statement
  \<open>k\<close>, row \<open>r\<close> first.
\<close>

text \<open>\<^verbatim>\<open>rows.Scan(&line.AccountId, &line.Purpose, &line.Amount)\<close>\<close>

definition scanned_line :: "transaction_lines_row \<Rightarrow> transactionLine" where
  "scanned_line row =
     \<lparr>AccountId = l_account_id row, Purpose = l_purpose row, Amount = l_amount row\<rparr>"

fun scan_lines ::
  "driver \<Rightarrow> nat \<Rightarrow> string \<Rightarrow> nat \<Rightarrow> transaction_lines_row list \<Rightarrow> transactionLine list
     \<Rightarrow> transactionLine list result" where
  "scan_lines d k tid r [] lines = Ok lines"
| "scan_lines d k tid r (row # rows) lines =
     (case scan_err d k r of
        Some e \<Rightarrow> Err (GetTransactionScan tid e)
      | None \<Rightarrow>
          scan_lines d k tid (Suc r) rows (lines @ [scanned_line row]))"

text \<open>
  \<^verbatim>\<open>select timestamp from transactions where transaction_id = ? and deleted_at is null limit 1\<close>
  and
  \<^verbatim>\<open>select account_id, purpose, amount from transaction_lines where transaction_id = ? and deleted_at is null\<close>.
  The first compares keys of NUMERIC affinity, the second compares texts.
\<close>

definition select_timestamp :: "sqlite \<Rightarrow> database \<Rightarrow> string \<Rightarrow> transactions_row list" where
  "select_timestamp q db tid =
     take 1 (filter (\<lambda>h. numeric_affinity q (t_transaction_id h) = numeric_affinity q tid \<and>
                         t_deleted_at h = None)
               (transactions db))"

definition select_lines :: "database \<Rightarrow> string \<Rightarrow> transaction_lines_row list" where
  "select_lines db tid =
     filter (\<lambda>r. l_transaction_id r = tid \<and> l_deleted_at r = None) (transaction_lines db)"

text \<open>
  \<^verbatim>\<open>func (r *sqliteTransactionRepository) getTransaction(tx *sql.Tx, transactionId string)\<close>,
  whose two statements are the statements \<open>k\<close> and \<open>Suc k\<close> of \<^verbatim>\<open>tx\<close>; \<open>db\<close> is the
  database as \<^verbatim>\<open>tx\<close> sees it. \<^verbatim>\<open>QueryRow(..).Scan\<close> fails with \<^verbatim>\<open>sql.ErrNoRows\<close> when
  no header row is selected.
\<close>

definition getTransaction ::
  "sqlite \<Rightarrow> driver \<Rightarrow> nat \<Rightarrow> database \<Rightarrow> string \<Rightarrow> transaction result" where
  "getTransaction q d k db transactionId =
     (case prepare_err d k of
        Some e \<Rightarrow> Err (GetTransactionTimestampPrepare e)
      | None \<Rightarrow>
     (case query_err d k of
        Some e \<Rightarrow> Err (GetTransactionTimestampQuery e)
      | None \<Rightarrow>
     (case select_timestamp q db transactionId of
        [] \<Rightarrow> Err (GetTransactionTimestampQuery ErrNoRows)
      | h # hs \<Rightarrow>
     (case scan_err d k 0 of
        Some e \<Rightarrow> Err (GetTransactionTimestampQuery e)
      | None \<Rightarrow>
     (case prepare_err d (Suc k) of
        Some e \<Rightarrow> Err (GetTransactionPrepare e)
      | None \<Rightarrow>
     (case query_err d (Suc k) of
        Some e \<Rightarrow> Err (GetTransactionQuery e)
      | None \<Rightarrow>
     (case scan_lines d (Suc k) transactionId 0 (select_lines db transactionId) [] of
        Err e \<Rightarrow> Err e
      | Panic p \<Rightarrow> Panic p
      | Ok lines \<Rightarrow>
     (case rows_err d (Suc k) of
        Some e \<Rightarrow> Err (GetTransactionRows e)
      | None \<Rightarrow>
          Ok \<lparr>ID = transactionId, Timestamp = t_timestamp h, Lines = lines\<rparr>))))))))"

subsection \<open>The transactions of an account\<close>

text \<open>
  \<^verbatim>\<open>select distinct transaction_id from transaction_lines where account_id = ? order by created_at desc\<close>.
  There is no \<^verbatim>\<open>deleted_at is null\<close> in this statement. SQLite keeps, in scan order,
  the first row of each transaction id (\<open>distinct_rows\<close>) and sorts the rows kept by the
  stored \<^verbatim>\<open>created_at\<close>, greatest first; rows of equal \<^verbatim>\<open>created_at\<close> stay in table
  order. \<open>insert_desc\<close> puts a row in front of the first row whose \<^verbatim>\<open>created_at\<close> is
  strictly smaller, and \<open>order_by_created_at_desc\<close> inserts the rows one by one in table
  order.
\<close>

fun distinct_rows :: "string list \<Rightarrow> transaction_lines_row list \<Rightarrow> transaction_lines_row list" where
  "distinct_rows seen [] = []"
| "distinct_rows seen (r # rs) =
     (if l_transaction_id r \<in> set seen then distinct_rows seen rs
      else r # distinct_rows (l_transaction_id r # seen) rs)"

fun insert_desc ::
  "sqlite \<Rightarrow> transaction_lines_row \<Rightarrow> transaction_lines_row list \<Rightarrow> transaction_lines_row list" where
  "insert_desc q x [] = [x]"
| "insert_desc q x (y # ys) =
     (if created_after q (l_created_at x) (l_created_at y) \<and>
         \<not> created_after q (l_created_at y) (l_created_at x)
      then x # y # ys
      else y # insert_desc q x ys)"

fun order_by_created_at_desc ::
  "sqlite \<Rightarrow> transaction_lines_row list \<Rightarrow> transaction_lines_row list \<Rightarrow> transaction_lines_row list" where
  "order_by_created_at_desc q kept [] = kept"
| "order_by_created_at_desc q kept (x # xs) = order_by_created_at_desc q (insert_desc q x kept) xs"

definition select_transaction_ids :: "sqlite \<Rightarrow> database \<Rightarrow> string \<Rightarrow> string list" where
  "select_transaction_ids q db accountId =
     map l_transaction_id
       (order_by_created_at_desc q []
          (distinct_rows [] (filter (\<lambda>r. l_account_id r = accountId) (transaction_lines db))))"

text \<open>The loop \<^verbatim>\<open>for rows.Next()\<close> of \<^verbatim>\<open>getAccountTransactions\<close> (statement 0).\<close>

fun scan_ids :: "driver \<Rightarrow> nat \<Rightarrow> string list \<Rightarrow> string list \<Rightarrow> string list result" where
  "scan_ids d r [] transactionIds = Ok transactionIds"
| "scan_ids d r (x # xs) transactionIds =
     (case scan_err d 0 r of
        Some e \<Rightarrow> Err (GetAccountTransactionsScan e (rollback_err d))
      | None \<Rightarrow> scan_ids d (Suc r) xs (transactionIds @ [x]))"

text \<open>
  The loop over \<^verbatim>\<open>transactionIds\<close>: the call of \<^verbatim>\<open>getTransaction\<close> for the id at
  index \<open>i\<close> prepares the statements \<open>1 + 2 * i\<close> and \<open>2 + 2 * i\<close> of the \<^verbatim>\<open>sql.Tx\<close>.
\<close>

fun get_transactions ::
  "sqlite \<Rightarrow> driver \<Rightarrow> database \<Rightarrow> nat \<Rightarrow> string list \<Rightarrow> transaction list
     \<Rightarrow> transaction list result" where
  "get_transactions q d db i [] txs = Ok txs"
| "get_transactions q d db i (x # xs) txs =
     (case getTransaction q d (1 + 2 * i) db x of
        Err e \<Rightarrow> Err (GetAccountTransactionsLooping e (rollback_err d))
      | Panic p \<Rightarrow> Panic p
      | Ok t \<Rightarrow> get_transactions q d db (Suc i) xs (txs @ [t]))"

text \<open>
  \<^verbatim>\<open>func (r *sqliteTransactionRepository) getAccountTransactions(accountId string)\<close>.
  It writes nothing, so the database is an argument only.
\<close>

definition getAccountTransactions ::
  "sqlite \<Rightarrow> driver \<Rightarrow> database \<Rightarrow> string \<Rightarrow> transaction list result" where
  "getAccountTransactions q d db accountId =
     (case begin_err d of
        Some e \<Rightarrow> Err (GetAccountTransactionsBegin e)
      | None \<Rightarrow>
     (case prepare_err d 0 of
        Some e \<Rightarrow> Err (GetAccountTransactionsPrepare e (rollback_err d))
      | None \<Rightarrow>
     (case query_err d 0 of
        Some e \<Rightarrow> Err (GetAccountTransactionsQuery e (rollback_err d))
      | None \<Rightarrow>
     (case scan_ids d 0 (select_transaction_ids q db accountId) [] of
        Err e \<Rightarrow> Err e
      | Panic p \<Rightarrow> Panic p
      | Ok transactionIds \<Rightarrow>
     (case rows_err d 0 of
        Some e \<Rightarrow> Err (GetAccountTransactionsErr e (rollback_err d))
      | None \<Rightarrow>
     (case get_transactions q d db 0 transactionIds [] of
        Err e \<Rightarrow> Err e
      | Panic p \<Rightarrow> Panic p
      | Ok txs \<Rightarrow>
     (case commit_err d of
        Some e \<Rightarrow> Err (GetAccountTransactionsCommit e (rollback_err d))
      | None \<Rightarrow> Ok txs)))))))"

subsection \<open>The balance of an account\<close>

text \<open>
  SQLite's \<^verbatim>\<open>sum()\<close> over integers adds the values in scan order into a 64-bit
  accumulator and raises ``integer overflow'' as soon as one addition leaves the range;
  over no rows it is NULL, which \<^verbatim>\<open>coalesce(.., 0)\<close> turns into 0.
\<close>

fun sqlite_sum :: "int64 list \<Rightarrow> int \<Rightarrow> int option" where
  "sqlite_sum [] acc = Some acc"
| "sqlite_sum (x # xs) acc =
     (let s = acc + sint x
      in if - (2 ^ 63) \<le> s \<and> s < 2 ^ 63 then sqlite_sum xs s else None)"

text \<open>
  \<^verbatim>\<open>select coalesce(sum(amount), 0) from transaction_lines where account_id = ? and deleted_at is null\<close>
\<close>

definition select_balance_amounts :: "database \<Rightarrow> string \<Rightarrow> int64 list" where
  "select_balance_amounts db accountId =
     map l_amount
       (filter (\<lambda>r. l_account_id r = accountId \<and> l_deleted_at r = None) (transaction_lines db))"

text \<open>
  \<^verbatim>\<open>func (r *sqliteTransactionRepository) getAccountBalance(tx *sql.Tx, accountId string) (int64, error)\<close>,
  whose statement is statement \<open>k\<close> of \<^verbatim>\<open>tx\<close>. The source returns the driver's error
  as it is; here it is wrapped in one constructor.
\<close>

definition getAccountBalance :: "driver \<Rightarrow> nat \<Rightarrow> database \<Rightarrow> string \<Rightarrow> int64 result" where
  "getAccountBalance d k db accountId =
     (case prepare_err d k of
        Some e \<Rightarrow> Err (GetAccountBalanceFailed e)
      | None \<Rightarrow>
     (case query_err d k of
        Some e \<Rightarrow> Err (GetAccountBalanceFailed e)
      | None \<Rightarrow>
     (case select_balance_amounts db accountId of
        [] \<Rightarrow> (case scan_err d k 0 of
                 Some e \<Rightarrow> Err (GetAccountBalanceFailed e)
               | None \<Rightarrow> Ok 0)
      | x # xs \<Rightarrow>
     (case sqlite_sum (x # xs) 0 of
        None \<Rightarrow> Err (GetAccountBalanceFailed IntegerOverflow)
      | Some s \<Rightarrow>
     (case scan_err d k 0 of
        Some e \<Rightarrow> Err (GetAccountBalanceFailed e)
      | None \<Rightarrow> Ok (word_of_int s))))))"

subsection \<open>Example data\<close>

text \<open>
  The posting of the specification's example, \<^verbatim>\<open>{A: -300, B: +200, C: +100}\<close>, and a
  ledger to post it into: one earlier transaction \<open>t0\<close>, and one line that carries the
  id \<open>t1\<close> already but is soft-deleted.
\<close>

definition example_posting :: transaction where
  "example_posting =
     \<lparr>ID = ''t1'', Timestamp = 7,
      Lines = [\<lparr>AccountId = ''A'', Purpose = ''transfer'', Amount = - 300\<rparr>,
               \<lparr>AccountId = ''B'', Purpose = ''transfer'', Amount = 200\<rparr>,
               \<lparr>AccountId = ''C'', Purpose = ''transfer'', Amount = 100\<rparr>]\<rparr>"

definition example_ledger :: database where
  "example_ledger =
     \<lparr>transactions =
        [\<lparr>t_transaction_id = ''t0'', t_timestamp = 3, t_created_at = 50, t_deleted_at = None\<rparr>],
      transaction_lines =
        [\<lparr>l_transaction_id = ''t0'', l_account_id = ''A'', l_purpose = ''transfer'',
          l_amount = 500, l_created_at = 51, l_deleted_at = None\<rparr>,
         \<lparr>l_transaction_id = ''t0'', l_account_id = ''B'', l_purpose = ''transfer'',
          l_amount = - 500, l_created_at = 52, l_deleted_at = None\<rparr>,
         \<lparr>l_transaction_id = ''t1'', l_account_id = ''Z'', l_purpose = ''fee'',
          l_amount = 9, l_created_at = 53, l_deleted_at = Some 60\<rparr>]\<rparr>"

section \<open>Facts about validation\<close>

lemma sum_amounts_sum_list: "sum_amounts ls acc = acc + sum_list (map Amount ls)"
  by (induction ls arbitrary: acc) (simp_all add: add.assoc)

text \<open>\<^verbatim>\<open>validate\<close> accepts exactly when the sum in Go's wrapping arithmetic is zero.\<close>

lemma validate_Ok_iff: "validate t = Ok () \<longleftrightarrow> sum_list (map Amount (Lines t)) = 0"
  by (simp add: validate_def Let_def sum_amounts_sum_list)

lemma sum_list_Amount_word:
  "sum_list (map Amount ls) = (word_of_int (\<Sum>l\<leftarrow>ls. sint (Amount l)) :: 64 word)"
  by (induction ls) simp_all

text \<open>
  In terms of the exact sum of the signed amounts: \<^verbatim>\<open>validate\<close> accepts exactly when
  that sum is a multiple of \<open>2 ^ 64\<close>, which is the same as its being zero whenever its
  magnitude is below \<open>2 ^ 64\<close>.
\<close>

lemma validate_Ok_iff_exact:
  "validate t = Ok () \<longleftrightarrow> (2 ^ 64 :: int) dvd (\<Sum>l\<leftarrow>Lines t. sint (Amount l))"
  using word_of_int_eq_0_iff [where ?'a = 64, of "\<Sum>l\<leftarrow>Lines t. sint (Amount l)"]
  by (simp add: validate_Ok_iff sum_list_Amount_word)

lemma validate_Ok_iff_in_range:
  assumes "\<bar>\<Sum>l\<leftarrow>Lines t. sint (Amount l)\<bar> < 2 ^ 64"
  shows "validate t = Ok () \<longleftrightarrow> (\<Sum>l\<leftarrow>Lines t. sint (Amount l)) = 0"
proof -
  let ?s = "\<Sum>l\<leftarrow>Lines t. sint (Amount l)"
  have "(2 ^ 64 :: int) dvd ?s \<longleftrightarrow> ?s = 0"
  proof
    assume d: "(2 ^ 64 :: int) dvd ?s"
    show "?s = 0"
    proof (rule ccontr)
      assume "?s \<noteq> 0"
      then have "\<bar>2 ^ 64 :: int\<bar> \<le> \<bar>?s\<bar>" using d by (rule dvd_imp_le_int)
      with assms show False by simp
    qed
  qed simp
  then show ?thesis by (simp add: validate_Ok_iff_exact)
qed

text \<open>
  \<^verbatim>\<open>createTransaction\<close> validates first: a transaction that \<^verbatim>\<open>validate\<close> rejects is
  rejected with the wrapped error whatever the driver would have done, and the database
  is the one before the call.
\<close>

lemma createTransaction_invalid:
  "validate t \<noteq> Ok () \<Longrightarrow>
   createTransaction d db t =
     (Err (TransactionInvalid (ID t)
        (InvalidLines (ID t) (length (Lines t)) (sint (sum_list (map Amount (Lines t)))))), db)"
  by (simp add: createTransaction_def validate_def sum_amounts_sum_list Let_def split: if_splits)

lemma createTransaction_Ok_valid:
  "fst (createTransaction d db t) = Ok () \<Longrightarrow> validate t = Ok ()"
  by (cases "validate t") (auto simp: createTransaction_def split: option.splits result.splits)

text \<open>
  C1. \<^verbatim>\<open>transaction.validate\<close> adds the amounts in Go's wrapping \<^verbatim>\<open>int\<close>. The
  transaction below has two lines of \<open>- 2 ^ 63\<close> each, the least \<^verbatim>\<open>int\<close>: the exact sum
  of its amounts is \<open>- 2 ^ 64\<close>, not zero, yet the sum the code computes wraps to zero,
  \<^verbatim>\<open>validate\<close> accepts it, and \<^verbatim>\<open>createTransaction\<close> (here on an empty ledger, with a
  driver that reports no error) commits its header and both lines.
\<close>

theorem validate_accepts_wrapped_sum:
  "validate \<lparr>ID = ''t1'', Timestamp = 7,
      Lines = [\<lparr>AccountId = ''A'', Purpose = ''transfer'', Amount = - 9223372036854775808\<rparr>,
               \<lparr>AccountId = ''B'', Purpose = ''transfer'', Amount = - 9223372036854775808\<rparr>]\<rparr>
     = Ok () \<and>
   (\<Sum>l\<leftarrow>[\<lparr>AccountId = ''A'', Purpose = ''transfer'', Amount = - 9223372036854775808\<rparr>,
           \<lparr>AccountId = ''B'', Purpose = ''transfer'', Amount = - 9223372036854775808\<rparr>].
      sint (Amount l)) = - 18446744073709551616 \<and>
   createTransaction
     (no_faults (\<lambda>n. 100 + n))
     \<lparr>transactions = [], transaction_lines = []\<rparr>
     \<lparr>ID = ''t1'', Timestamp = 7,
      Lines = [\<lparr>AccountId = ''A'', Purpose = ''transfer'', Amount = - 9223372036854775808\<rparr>,
               \<lparr>AccountId = ''B'', Purpose = ''transfer'', Amount = - 9223372036854775808\<rparr>]\<rparr>
     = (Ok (),
        \<lparr>transactions =
           [\<lparr>t_transaction_id = ''t1'', t_timestamp = 7, t_created_at = 100, t_deleted_at = None\<rparr>],
         transaction_lines =
           [\<lparr>l_transaction_id = ''t1'', l_account_id = ''A'', l_purpose = ''transfer'',
             l_amount = - 9223372036854775808, l_created_at = 101, l_deleted_at = None\<rparr>,
            \<lparr>l_transaction_id = ''t1'', l_account_id = ''B'', l_purpose = ''transfer'',
             l_amount = - 9223372036854775808, l_created_at = 102, l_deleted_at = None\<rparr>]\<rparr>)"
  by (simp add: validate_def createTransaction_def no_faults_def line_row_def)

text \<open>
  C4 (as the code has it). A transaction with zero lines passes \<^verbatim>\<open>transaction.validate\<close>:
  the sum of no amounts is zero, and \<^verbatim>\<open>validate\<close> has no check of the number of lines.
  The only guard against an empty transaction is the input check of \<^verbatim>\<open>checkBalance\<close>,
  which rejects it with its invalid-input error whatever the accounts are.
\<close>

theorem validate_empty_transaction:
  "Lines t = [] \<Longrightarrow>
     validate t = Ok () \<and>
     checkBalance accounts t = Err (CheckBalanceInvalidInput (length accounts) 0)"
  by (simp add: validate_def checkBalance_def)

theorem validate_empty_transaction_witness:
  "Lines \<lparr>ID = ''t1'', Timestamp = 0, Lines = []\<rparr> = [] \<and>
   validate \<lparr>ID = ''t1'', Timestamp = 0, Lines = []\<rparr> = Ok () \<and>
   checkBalance [Some \<lparr>Account_ID = ''a'', Balance = 10\<rparr>, Some \<lparr>Account_ID = ''b'', Balance = 0\<rparr>]
     \<lparr>ID = ''t1'', Timestamp = 0, Lines = []\<rparr>
     = Err (CheckBalanceInvalidInput 2 0)"
  using validate_empty_transaction
    [of "\<lparr>ID = ''t1'', Timestamp = 0, Lines = []\<rparr>"
        "[Some \<lparr>Account_ID = ''a'', Balance = 10\<rparr>, Some \<lparr>Account_ID = ''b'', Balance = 0\<rparr>]"]
  by simp

text \<open>
  C4 (as the specification states it) fails: the transaction with no lines is accepted,
  not rejected.
\<close>

theorem validate_empty_counterexample:
  "validate \<lparr>ID = ''t1'', Timestamp = 0, Lines = []\<rparr> = Ok ()"
  by (simp add: validate_def)

text \<open>
  C5 (as the code has it). \<^verbatim>\<open>transaction.validate\<close> never calls
  \<^verbatim>\<open>TransactionPurpose.validate\<close>: replacing the purpose and the account id of every line
  by anything leaves its result unchanged. The closed set of purposes is what
  \<^verbatim>\<open>TransactionPurpose.validate\<close> alone decides: it accepts the six purposes and rejects
  every other string.
\<close>

theorem validate_ignores_purpose:
  "validate (t\<lparr>Lines := map (\<lambda>l. l\<lparr>AccountId := f l, Purpose := p l\<rparr>) (Lines t)\<rparr>) = validate t \<and>
   TransactionPurpose_validate q =
     (if q \<in> {''achcredit'', ''achdebit'', ''fee'', ''interest'', ''transfer'', ''wire''}
      then Ok () else Err (UnknownPurpose q))"
  by (simp add: validate_def sum_amounts_sum_list o_def Let_def TransactionPurpose_validate_def
      ACHCredit_def ACHDebit_def Fee_def Interest_def Transfer_def Wire_def)

text \<open>
  C5 (as the specification states it) fails: a line whose purpose is outside the closed
  set is rejected by \<^verbatim>\<open>TransactionPurpose.validate\<close>, and the transaction holding it
  passes \<^verbatim>\<open>transaction.validate\<close>.
\<close>

theorem validate_unknown_purpose_counterexample:
  "TransactionPurpose_validate ''bogus'' = Err (UnknownPurpose ''bogus'') \<and>
   validate \<lparr>ID = ''t1'', Timestamp = 0,
      Lines = [\<lparr>AccountId = ''A'', Purpose = ''bogus'', Amount = - 5\<rparr>,
               \<lparr>AccountId = ''B'', Purpose = ''transfer'', Amount = 5\<rparr>]\<rparr> = Ok ()"
  by (simp add: validate_def TransactionPurpose_validate_def
      ACHCredit_def ACHDebit_def Fee_def Interest_def Transfer_def Wire_def)

section \<open>Facts about the funds check\<close>

text \<open>The verdict of the inner loop is a function of the first matching line.\<close>

lemma check_lines_find:
  "check_lines a ls =
     (case find (\<lambda>l. Account_ID a = AccountId l) ls of
        None \<Rightarrow> Err (NoTransactionLines (Account_ID a))
      | Some l \<Rightarrow> if sint (Balance a) < sint (Amount l)
                  then Err (InsufficientFunds (Account_ID a)) else Ok ())"
  by (induction ls) auto

lemma check_accounts_cong:
  "(\<And>a. Some a \<in> set accounts \<Longrightarrow> 0 < sint (Balance a) \<Longrightarrow> check_lines a ls = check_lines a ls')
   \<Longrightarrow> check_accounts accounts ls = check_accounts accounts ls'"
  by (induction accounts ls rule: check_accounts.induct) (auto split: result.splits)

lemma check_accounts_nonpositive:
  "\<forall>p \<in> set accounts. \<exists>a. p = Some a \<and> sint (Balance a) \<le> 0
   \<Longrightarrow> check_accounts accounts ls = Ok ()"
  by (induction accounts ls rule: check_accounts.induct) auto

text \<open>An account whose balance is not positive is passed over, whatever the others are.\<close>

lemma check_accounts_skip:
  "sint (Balance a) \<le> 0 \<Longrightarrow> check_accounts (Some a # as) ls = check_accounts as ls"
  by simp

lemma check_accounts_drop_nonpositive:
  "check_accounts accounts ls =
   check_accounts
     (filter (\<lambda>p. case p of None \<Rightarrow> True | Some a \<Rightarrow> 0 < sint (Balance a)) accounts) ls"
  by (induction accounts ls rule: check_accounts.induct) (auto split: result.splits)

text \<open>
  The comparison is with the signed amount: a positive balance is never below a negative
  amount, so a debit never fails the check of the account it debits.
\<close>

lemma check_lines_debit:
  "0 < sint (Balance a) \<Longrightarrow> find (\<lambda>l. Account_ID a = AccountId l) ls = Some l
   \<Longrightarrow> sint (Amount l) < 0 \<Longrightarrow> check_lines a ls = Ok ()"
  by (simp add: check_lines_find)

text \<open>
  C3. Account \<open>A\<close> has the positive balance 100 and the transaction debits it by 500
  (the line of amount \<open>- 500\<close>), so the balance is below the magnitude of the debit; the
  funds check compares \<open>100 < - 500\<close> and returns no error.
\<close>

theorem checkBalance_passes_overdrawing_debit:
  "checkBalance
     [Some \<lparr>Account_ID = ''A'', Balance = 100\<rparr>, Some \<lparr>Account_ID = ''B'', Balance = 0\<rparr>]
     \<lparr>ID = ''t1'', Timestamp = 0,
      Lines = [\<lparr>AccountId = ''A'', Purpose = ''transfer'', Amount = - 500\<rparr>,
               \<lparr>AccountId = ''B'', Purpose = ''transfer'', Amount = 500\<rparr>]\<rparr>
     = Ok ()"
  by (simp add: checkBalance_def)

text \<open>
  C6. When the funds-check precondition holds (at least two accounts, a transaction with
  at least one line) and every account has a balance at or below zero, \<^verbatim>\<open>checkBalance\<close>
  returns no error, whatever the lines of the transaction are.
\<close>

theorem checkBalance_nonpositive_balances:
  assumes "2 \<le> length accounts" and "Lines tx \<noteq> []"
    and "\<forall>p \<in> set accounts. \<exists>a. p = Some a \<and> sint (Balance a) \<le> 0"
  shows "checkBalance accounts tx = Ok ()"
  using assms by (simp add: checkBalance_def check_accounts_nonpositive)

theorem checkBalance_nonpositive_balances_witness:
  "checkBalance
     [Some \<lparr>Account_ID = ''A'', Balance = 0\<rparr>, Some \<lparr>Account_ID = ''B'', Balance = - 50\<rparr>]
     \<lparr>ID = ''t1'', Timestamp = 0,
      Lines = [\<lparr>AccountId = ''A'', Purpose = ''transfer'', Amount = - 500\<rparr>,
               \<lparr>AccountId = ''B'', Purpose = ''transfer'', Amount = 500\<rparr>]\<rparr>
     = Ok ()"
  by (rule checkBalance_nonpositive_balances) simp_all

text \<open>
  C10. Under the funds-check precondition, the verdict of \<^verbatim>\<open>checkBalance\<close> on an account
  is a function of the first line, in the order of the transaction, whose account id is
  the account's: two transactions that have the same first matching line for every
  account of positive balance get the same result, whatever their later lines are.
\<close>

theorem checkBalance_first_matching_line:
  assumes "2 \<le> length accounts" and "Lines tx \<noteq> []" and "Lines tx' \<noteq> []"
    and "\<forall>a. Some a \<in> set accounts \<and> 0 < sint (Balance a) \<longrightarrow>
           find (\<lambda>l. Account_ID a = AccountId l) (Lines tx) =
           find (\<lambda>l. Account_ID a = AccountId l) (Lines tx')"
  shows "checkBalance accounts tx = checkBalance accounts tx' \<and>
         (\<forall>a. check_lines a (Lines tx) =
            (case find (\<lambda>l. Account_ID a = AccountId l) (Lines tx) of
               None \<Rightarrow> Err (NoTransactionLines (Account_ID a))
             | Some l \<Rightarrow> if sint (Balance a) < sint (Amount l)
                         then Err (InsufficientFunds (Account_ID a)) else Ok ()))"
proof -
  have "check_accounts accounts (Lines tx) = check_accounts accounts (Lines tx')"
    using assms(4) by (intro check_accounts_cong) (simp add: check_lines_find)
  with assms(1-3) show ?thesis
    by (simp add: checkBalance_def check_lines_find)
qed

theorem checkBalance_first_matching_line_witness:
  "checkBalance
     [Some \<lparr>Account_ID = ''A'', Balance = 100\<rparr>, Some \<lparr>Account_ID = ''B'', Balance = 50\<rparr>]
     \<lparr>ID = ''t1'', Timestamp = 0,
      Lines = [\<lparr>AccountId = ''A'', Purpose = ''transfer'', Amount = 60\<rparr>,
               \<lparr>AccountId = ''A'', Purpose = ''transfer'', Amount = 60\<rparr>,
               \<lparr>AccountId = ''B'', Purpose = ''transfer'', Amount = - 120\<rparr>]\<rparr>
   = checkBalance
     [Some \<lparr>Account_ID = ''A'', Balance = 100\<rparr>, Some \<lparr>Account_ID = ''B'', Balance = 50\<rparr>]
     \<lparr>ID = ''t2'', Timestamp = 0,
      Lines = [\<lparr>AccountId = ''A'', Purpose = ''transfer'', Amount = 60\<rparr>,
               \<lparr>AccountId = ''B'', Purpose = ''transfer'', Amount = - 120\<rparr>,
               \<lparr>AccountId = ''A'', Purpose = ''transfer'', Amount = 5000\<rparr>]\<rparr>"
  by (rule checkBalance_first_matching_line [THEN conjunct1]) auto

section \<open>Facts about posting\<close>

lemma insert_lines_Ok:
  "insert_lines d tid i ls rows = Ok rows' \<Longrightarrow> rows' = rows @ line_rows d tid i ls"
proof (induction ls arbitrary: i rows)
  case Nil
  then show ?case by simp
next
  case (Cons l ls)
  from Cons.prems
  have "insert_lines d tid (Suc i) ls (rows @ [line_row tid l (now d (Suc i))]) = Ok rows'"
    by (auto split: option.splits)
  from Cons.IH [OF this] show ?case by simp
qed

lemma insert_lines_no_faults:
  "\<forall>j. i \<le> j \<and> j < i + length ls \<longrightarrow> prepare_err d (Suc j) = None \<and> exec_err d (Suc j) = None
   \<Longrightarrow> insert_lines d tid i ls rows = Ok (rows @ line_rows d tid i ls)"
proof (induction ls arbitrary: i rows)
  case Nil
  then show ?case by simp
next
  case (Cons l ls)
  have "prepare_err d (Suc i) = None" "exec_err d (Suc i) = None"
    using Cons.prems by auto
  moreover
  have "\<forall>j. Suc i \<le> j \<and> j < Suc i + length ls \<longrightarrow>
          prepare_err d (Suc j) = None \<and> exec_err d (Suc j) = None"
    using Cons.prems by auto
  ultimately show ?case
    using Cons.IH [of "Suc i"] by simp
qed

text \<open>
  The first failing step of the loop, at line \<open>n\<close>: a failing \<^verbatim>\<open>Prepare\<close> panics, a
  failing \<^verbatim>\<open>Exec\<close> is returned with its cause and the outcome of the rollback.
\<close>

lemma insert_lines_prepare_fails:
  "n < length ls \<Longrightarrow>
   \<forall>j < n. prepare_err d (Suc (i + j)) = None \<and> exec_err d (Suc (i + j)) = None \<Longrightarrow>
   prepare_err d (Suc (i + n)) = Some e \<Longrightarrow>
   insert_lines d tid i ls rows = Panic NilPointerDereference"
proof (induction ls arbitrary: i rows n)
  case Nil
  then show ?case by simp
next
  case (Cons l ls)
  show ?case
  proof (cases n)
    case 0
    with Cons.prems show ?thesis by simp
  next
    case (Suc m)
    with Cons.prems have "prepare_err d (Suc i) = None" "exec_err d (Suc i) = None"
      by (metis add.right_neutral zero_less_Suc)+
    moreover
    have "insert_lines d tid (Suc i) ls (rows @ [line_row tid l (now d (Suc i))])
            = Panic NilPointerDereference"
    proof (rule Cons.IH [of m])
      show "m < length ls" using Cons.prems(1) Suc by simp
      show "\<forall>j<m. prepare_err d (Suc (Suc i + j)) = None \<and> exec_err d (Suc (Suc i + j)) = None"
        using Cons.prems(2) Suc by (metis Suc_less_eq add_Suc_shift)
      show "prepare_err d (Suc (Suc i + m)) = Some e"
        using Cons.prems(3) Suc by simp
    qed
    ultimately show ?thesis by simp
  qed
qed

lemma insert_lines_exec_fails:
  "n < length ls \<Longrightarrow>
   \<forall>j < n. prepare_err d (Suc (i + j)) = None \<and> exec_err d (Suc (i + j)) = None \<Longrightarrow>
   prepare_err d (Suc (i + n)) = None \<Longrightarrow> exec_err d (Suc (i + n)) = Some e \<Longrightarrow>
   insert_lines d tid i ls rows
     = Err (CreateLineInsert tid (AccountId (ls ! n)) e (rollback_err d))"
proof (induction ls arbitrary: i rows n)
  case Nil
  then show ?case by simp
next
  case (Cons l ls)
  show ?case
  proof (cases n)
    case 0
    with Cons.prems show ?thesis by simp
  next
    case (Suc m)
    with Cons.prems have "prepare_err d (Suc i) = None" "exec_err d (Suc i) = None"
      by (metis add.right_neutral zero_less_Suc)+
    moreover
    have "insert_lines d tid (Suc i) ls (rows @ [line_row tid l (now d (Suc i))])
            = Err (CreateLineInsert tid (AccountId (ls ! m)) e (rollback_err d))"
    proof (rule Cons.IH [of m])
      show "m < length ls" using Cons.prems(1) Suc by simp
      show "\<forall>j<m. prepare_err d (Suc (Suc i + j)) = None \<and> exec_err d (Suc (Suc i + j)) = None"
        using Cons.prems(2) Suc by (metis Suc_less_eq add_Suc_shift)
      show "prepare_err d (Suc (Suc i + m)) = None"
        using Cons.prems(3) Suc by simp
      show "exec_err d (Suc (Suc i + m)) = Some e"
        using Cons.prems(4) Suc by simp
    qed
    ultimately show ?thesis using Suc by simp
  qed
qed

text \<open>All rows or none: whatever is not a success leaves the database as it was.\<close>

lemma createTransaction_not_Ok_db:
  "fst (createTransaction d db t) \<noteq> Ok () \<Longrightarrow> snd (createTransaction d db t) = db"
  by (auto simp: createTransaction_def split: result.splits option.splits)

lemma createTransaction_Ok_db:
  "createTransaction d db t = (Ok (), db') \<Longrightarrow>
   db' = \<lparr>transactions = transactions db @
            [\<lparr>t_transaction_id = ID t, t_timestamp = Timestamp t,
              t_created_at = now d 0, t_deleted_at = None\<rparr>],
          transaction_lines = transaction_lines db @ line_rows d (ID t) 0 (Lines t)\<rparr>"
  by (auto simp: createTransaction_def split: result.splits option.splits dest!: insert_lines_Ok)

lemma createTransaction_no_faults:
  "validate t = Ok () \<Longrightarrow> begin_err d = None \<Longrightarrow> commit_err d = None \<Longrightarrow>
   \<forall>j \<le> length (Lines t). prepare_err d j = None \<and> exec_err d j = None \<Longrightarrow>
   createTransaction d db t =
     (Ok (), \<lparr>transactions = transactions db @
            [\<lparr>t_transaction_id = ID t, t_timestamp = Timestamp t,
              t_created_at = now d 0, t_deleted_at = None\<rparr>],
          transaction_lines = transaction_lines db @ line_rows d (ID t) 0 (Lines t)\<rparr>)"
  using insert_lines_no_faults [of 0 "Lines t" d "ID t" "transaction_lines db"]
  by (simp add: createTransaction_def less_Suc_eq_le)

text \<open>
  The failing steps one by one. The header's \<^verbatim>\<open>Prepare\<close> and \<^verbatim>\<open>Exec\<close> and a line's
  \<^verbatim>\<open>Exec\<close> return an error that carries the cause \<open>e\<close> and the outcome of the
  rollback; a line's \<^verbatim>\<open>Prepare\<close> does not return.
\<close>

lemma createTransaction_header_prepare_fails:
  "validate t = Ok () \<Longrightarrow> begin_err d = None \<Longrightarrow> prepare_err d 0 = Some e \<Longrightarrow>
   createTransaction d db t = (Err (CreatePrepare e (rollback_err d)), db)"
  by (simp add: createTransaction_def)

lemma createTransaction_header_exec_fails:
  "validate t = Ok () \<Longrightarrow> begin_err d = None \<Longrightarrow> prepare_err d 0 = None \<Longrightarrow>
   exec_err d 0 = Some e \<Longrightarrow>
   createTransaction d db t = (Err (CreateInsert e (rollback_err d)), db)"
  by (simp add: createTransaction_def)

lemma createTransaction_line_exec_fails:
  "validate t = Ok () \<Longrightarrow> begin_err d = None \<Longrightarrow> n < length (Lines t) \<Longrightarrow>
   \<forall>j \<le> n. prepare_err d j = None \<and> exec_err d j = None \<Longrightarrow>
   prepare_err d (Suc n) = None \<Longrightarrow> exec_err d (Suc n) = Some e \<Longrightarrow>
   createTransaction d db t =
     (Err (CreateLineInsert (ID t) (AccountId (Lines t ! n)) e (rollback_err d)), db)"
  using insert_lines_exec_fails [of n "Lines t" d 0 e "ID t" "transaction_lines db"]
  by (simp add: createTransaction_def less_Suc_eq_le)

lemma createTransaction_line_prepare_fails:
  "validate t = Ok () \<Longrightarrow> begin_err d = None \<Longrightarrow> n < length (Lines t) \<Longrightarrow>
   \<forall>j \<le> n. prepare_err d j = None \<and> exec_err d j = None \<Longrightarrow>
   prepare_err d (Suc n) = Some e \<Longrightarrow>
   createTransaction d db t = (Panic NilPointerDereference, db)"
  using insert_lines_prepare_fails [of n "Lines t" d 0 e "ID t" "transaction_lines db"]
  by (simp add: createTransaction_def less_Suc_eq_le)

text \<open>
  C2. The posting of the specification's example into an empty ledger, with a driver
  whose \<^verbatim>\<open>Prepare\<close> fails for the insert of the third line (statement 3) and whose every
  other call succeeds: \<^verbatim>\<open>createTransaction\<close> panics in \<^verbatim>\<open>stmt.Close()\<close> on the nil
  statement. No error is returned, so neither the cause nor a rollback outcome is
  reported, and \<^verbatim>\<open>tx.Rollback()\<close> is never called; no row reaches the database.
\<close>

theorem createTransaction_line_prepare_panics:
  "createTransaction
     ((no_faults (\<lambda>n. 100 + n))
        \<lparr>prepare_err := \<lambda>k. if k = 3 then Some (DriverError ''database is locked'') else None\<rparr>)
     \<lparr>transactions = [], transaction_lines = []\<rparr>
     \<lparr>ID = ''t1'', Timestamp = 7,
      Lines = [\<lparr>AccountId = ''A'', Purpose = ''transfer'', Amount = - 300\<rparr>,
               \<lparr>AccountId = ''B'', Purpose = ''transfer'', Amount = 200\<rparr>,
               \<lparr>AccountId = ''C'', Purpose = ''transfer'', Amount = 100\<rparr>]\<rparr>
   = (Panic NilPointerDereference, \<lparr>transactions = [], transaction_lines = []\<rparr>)"
  by (simp add: createTransaction_def validate_def no_faults_def)

section \<open>Facts about reading\<close>

lemma scanned_line_line_row: "scanned_line (line_row tid l c) = l"
  by (simp add: scanned_line_def line_row_def)

lemma map_scanned_line_rows: "map scanned_line (line_rows d tid i ls) = ls"
  by (induction ls arbitrary: i) (simp_all add: scanned_line_line_row)

lemma line_rows_ids:
  "r \<in> set (line_rows d tid i ls) \<Longrightarrow> l_transaction_id r = tid \<and> l_deleted_at r = None"
  by (induction ls arbitrary: i) (auto simp: line_row_def)

lemma scan_lines_no_faults:
  "\<forall>r. scan_err d k r = None \<Longrightarrow>
   scan_lines d k tid r rows lines = Ok (lines @ map scanned_line rows)"
  by (induction rows arbitrary: r lines) simp_all

lemma select_lines_after:
  assumes "\<forall>r \<in> set (transaction_lines db). l_transaction_id r = tid \<longrightarrow> l_deleted_at r \<noteq> None"
  shows "select_lines
           \<lparr>transactions = hs, transaction_lines = transaction_lines db @ line_rows d tid i ls\<rparr> tid
         = line_rows d tid i ls"
proof -
  have "filter (\<lambda>r. l_transaction_id r = tid \<and> l_deleted_at r = None) (transaction_lines db) = []"
    using assms by (auto simp: filter_empty_conv)
  moreover
  have "filter (\<lambda>r. l_transaction_id r = tid \<and> l_deleted_at r = None) (line_rows d tid i ls)
          = line_rows d tid i ls"
    by (rule filter_True) (auto dest: line_rows_ids)
  ultimately show ?thesis by (simp add: select_lines_def)
qed

lemma select_timestamp_after:
  "\<exists>h hs'. select_timestamp q
      \<lparr>transactions = hs @ [\<lparr>t_transaction_id = tid, t_timestamp = ts,
                               t_created_at = c, t_deleted_at = None\<rparr>],
       transaction_lines = rs\<rparr> tid = h # hs'"
proof -
  let ?new = "\<lparr>t_transaction_id = tid, t_timestamp = ts, t_created_at = c, t_deleted_at = None\<rparr>"
  let ?P = "\<lambda>h. numeric_affinity q (t_transaction_id h) = numeric_affinity q tid \<and>
                t_deleted_at h = None"
  have "filter ?P (hs @ [?new]) \<noteq> []"
    by (simp add: filter_empty_conv)
  then obtain h hs' where "filter ?P (hs @ [?new]) = h # hs'"
    by (cases "filter ?P (hs @ [?new])") auto
  then show ?thesis by (simp add: select_timestamp_def del: filter_append)
qed

text \<open>
  The round trip where ids are not shared. Let \<^verbatim>\<open>createTransaction\<close> commit \<open>t\<close> into a
  ledger that holds no non-deleted line with the id of \<open>t\<close>, and let no call of the read
  fail. Then \<^verbatim>\<open>getTransaction\<close> for that id returns a transaction with that id and with
  the lines of \<open>t\<close>, in the order of \<open>t\<close>: the same lines up to order, and the same
  total.
\<close>

lemma getTransaction_after_createTransaction:
  assumes post: "createTransaction d db t = (Ok (), db')"
    and fresh: "\<forall>r \<in> set (transaction_lines db). l_transaction_id r = ID t \<longrightarrow> l_deleted_at r \<noteq> None"
    and read: "prepare_err d' k = None" "query_err d' k = None" "scan_err d' k 0 = None"
      "prepare_err d' (Suc k) = None" "query_err d' (Suc k) = None"
      "\<forall>r. scan_err d' (Suc k) r = None" "rows_err d' (Suc k) = None"
  shows "\<exists>t'. getTransaction q d' k db' (ID t) = Ok t' \<and> ID t' = ID t \<and> Lines t' = Lines t \<and>
           mset (Lines t') = mset (Lines t) \<and>
           sum_list (map Amount (Lines t')) = sum_list (map Amount (Lines t))"
proof -
  let ?hdr = "\<lparr>t_transaction_id = ID t, t_timestamp = Timestamp t,
              t_created_at = now d 0, t_deleted_at = None\<rparr>"
  have db': "db' = \<lparr>transactions = transactions db @ [?hdr],
          transaction_lines = transaction_lines db @ line_rows d (ID t) 0 (Lines t)\<rparr>"
    using post by (rule createTransaction_Ok_db)
  obtain h hs' where h: "select_timestamp q db' (ID t) = h # hs'"
    unfolding db' using select_timestamp_after by blast
  have l: "select_lines db' (ID t) = line_rows d (ID t) 0 (Lines t)"
    unfolding db' using fresh by (rule select_lines_after)
  have "getTransaction q d' k db' (ID t)
          = Ok \<lparr>ID = ID t, Timestamp = t_timestamp h, Lines = Lines t\<rparr>"
    using read by (simp add: getTransaction_def h l scan_lines_no_faults map_scanned_line_rows)
  then show ?thesis by simp
qed

text \<open>
  An instance: the posting of the specification's example into the example ledger, whose
  one line under the id \<open>t1\<close> is soft-deleted.
\<close>

lemma getTransaction_after_createTransaction_example:
  "\<exists>t'. getTransaction q (no_faults (\<lambda>n. 900 + n)) 0
          (snd (createTransaction (no_faults (\<lambda>n. 100 + n)) example_ledger example_posting))
          ''t1'' = Ok t' \<and>
        Lines t' = [\<lparr>AccountId = ''A'', Purpose = ''transfer'', Amount = - 300\<rparr>,
                    \<lparr>AccountId = ''B'', Purpose = ''transfer'', Amount = 200\<rparr>,
                    \<lparr>AccountId = ''C'', Purpose = ''transfer'', Amount = 100\<rparr>]"
proof -
  let ?d = "no_faults (\<lambda>n. 100 + n)"
  let ?d' = "no_faults (\<lambda>n. 900 + n)"
  let ?db' = "snd (createTransaction ?d example_ledger example_posting)"
  have "fst (createTransaction ?d example_ledger example_posting) = Ok ()"
    by (simp add: createTransaction_def validate_def no_faults_def example_posting_def)
  then have post: "createTransaction ?d example_ledger example_posting = (Ok (), ?db')"
    by (simp add: prod_eq_iff)
  have fresh: "\<forall>r \<in> set (transaction_lines example_ledger).
      l_transaction_id r = ID example_posting \<longrightarrow> l_deleted_at r \<noteq> None"
    by (simp add: example_ledger_def example_posting_def)
  have "\<exists>t'. getTransaction q ?d' 0 ?db' (ID example_posting) = Ok t' \<and>
          ID t' = ID example_posting \<and> Lines t' = Lines example_posting \<and>
          mset (Lines t') = mset (Lines example_posting) \<and>
          sum_list (map Amount (Lines t')) = sum_list (map Amount (Lines example_posting))"
    by (rule getTransaction_after_createTransaction [OF post fresh]) (simp_all add: no_faults_def)
  then obtain t' where "getTransaction q ?d' 0 ?db' (ID example_posting) = Ok t'"
    and "Lines t' = Lines example_posting"
    by blast
  then have "getTransaction q ?d' 0 ?db' ''t1'' = Ok t' \<and>
      Lines t' = [\<lparr>AccountId = ''A'', Purpose = ''transfer'', Amount = - 300\<rparr>,
                  \<lparr>AccountId = ''B'', Purpose = ''transfer'', Amount = 200\<rparr>,
                  \<lparr>AccountId = ''C'', Purpose = ''transfer'', Amount = 100\<rparr>]"
    by (simp add: example_posting_def)
  then show ?thesis by blast
qed

text \<open>
  C7. The migration declares \<^verbatim>\<open>transactions(transaction_id primart key, ..)\<close>: the
  misspelt \<^verbatim>\<open>primary key\<close> is no constraint (the table \<^verbatim>\<open>accounts\<close> beside it has
  \<^verbatim>\<open>account_id primary key\<close>), so the insert of a header whose id is already stored
  succeeds. The ledger below is what posting \<^verbatim>\<open>{A: -5, B: +5}\<close> under the id \<open>t1\<close>
  leaves. The posting of \<^verbatim>\<open>{C: -1, D: +1}\<close> under the same id is committed, and
  reading \<open>t1\<close> back returns the timestamp of the first posting and four lines, which are
  not, up to order, the two lines posted. This holds whatever SQLite's conversions \<open>q\<close>
  are.
\<close>

theorem getTransaction_after_reposted_id:
  "createTransaction (no_faults (\<lambda>n. 200 + n))
     \<lparr>transactions =
        [\<lparr>t_transaction_id = ''t1'', t_timestamp = 7, t_created_at = 100, t_deleted_at = None\<rparr>],
      transaction_lines =
        [\<lparr>l_transaction_id = ''t1'', l_account_id = ''A'', l_purpose = ''transfer'',
          l_amount = - 5, l_created_at = 101, l_deleted_at = None\<rparr>,
         \<lparr>l_transaction_id = ''t1'', l_account_id = ''B'', l_purpose = ''transfer'',
          l_amount = 5, l_created_at = 102, l_deleted_at = None\<rparr>]\<rparr>
     \<lparr>ID = ''t1'', Timestamp = 8,
      Lines = [\<lparr>AccountId = ''C'', Purpose = ''wire'', Amount = - 1\<rparr>,
               \<lparr>AccountId = ''D'', Purpose = ''wire'', Amount = 1\<rparr>]\<rparr>
   = (Ok (),
     \<lparr>transactions =
        [\<lparr>t_transaction_id = ''t1'', t_timestamp = 7, t_created_at = 100, t_deleted_at = None\<rparr>,
         \<lparr>t_transaction_id = ''t1'', t_timestamp = 8, t_created_at = 200, t_deleted_at = None\<rparr>],
      transaction_lines =
        [\<lparr>l_transaction_id = ''t1'', l_account_id = ''A'', l_purpose = ''transfer'',
          l_amount = - 5, l_created_at = 101, l_deleted_at = None\<rparr>,
         \<lparr>l_transaction_id = ''t1'', l_account_id = ''B'', l_purpose = ''transfer'',
          l_amount = 5, l_created_at = 102, l_deleted_at = None\<rparr>,
         \<lparr>l_transaction_id = ''t1'', l_account_id = ''C'', l_purpose = ''wire'',
          l_amount = - 1, l_created_at = 201, l_deleted_at = None\<rparr>,
         \<lparr>l_transaction_id = ''t1'', l_account_id = ''D'', l_purpose = ''wire'',
          l_amount = 1, l_created_at = 202, l_deleted_at = None\<rparr>]\<rparr>) \<and>
   getTransaction q (no_faults (\<lambda>n. 900 + n)) 0
     \<lparr>transactions =
        [\<lparr>t_transaction_id = ''t1'', t_timestamp = 7, t_created_at = 100, t_deleted_at = None\<rparr>,
         \<lparr>t_transaction_id = ''t1'', t_timestamp = 8, t_created_at = 200, t_deleted_at = None\<rparr>],
      transaction_lines =
        [\<lparr>l_transaction_id = ''t1'', l_account_id = ''A'', l_purpose = ''transfer'',
          l_amount = - 5, l_created_at = 101, l_deleted_at = None\<rparr>,
         \<lparr>l_transaction_id = ''t1'', l_account_id = ''B'', l_purpose = ''transfer'',
          l_amount = 5, l_created_at = 102, l_deleted_at = None\<rparr>,
         \<lparr>l_transaction_id = ''t1'', l_account_id = ''C'', l_purpose = ''wire'',
          l_amount = - 1, l_created_at = 201, l_deleted_at = None\<rparr>,
         \<lparr>l_transaction_id = ''t1'', l_account_id = ''D'', l_purpose = ''wire'',
          l_amount = 1, l_created_at = 202, l_deleted_at = None\<rparr>]\<rparr>
     ''t1''
   = Ok \<lparr>ID = ''t1'', Timestamp = 7,
         Lines = [\<lparr>AccountId = ''A'', Purpose = ''transfer'', Amount = - 5\<rparr>,
                  \<lparr>AccountId = ''B'', Purpose = ''transfer'', Amount = 5\<rparr>,
                  \<lparr>AccountId = ''C'', Purpose = ''wire'', Amount = - 1\<rparr>,
                  \<lparr>AccountId = ''D'', Purpose = ''wire'', Amount = 1\<rparr>]\<rparr> \<and>
   mset [\<lparr>AccountId = ''A'', Purpose = ''transfer'', Amount = - 5\<rparr>,
         \<lparr>AccountId = ''B'', Purpose = ''transfer'', Amount = 5\<rparr>,
         \<lparr>AccountId = ''C'', Purpose = ''wire'', Amount = - 1\<rparr>,
         \<lparr>AccountId = ''D'', Purpose = ''wire'', Amount = 1\<rparr>]
   \<noteq> mset [\<lparr>AccountId = ''C'', Purpose = ''wire'', Amount = - 1\<rparr>,
           \<lparr>AccountId = ''D'', Purpose = ''wire'', Amount = 1\<rparr>]"
  by (simp add: createTransaction_def validate_def no_faults_def line_row_def getTransaction_def
      select_timestamp_def select_lines_def scanned_line_def)

section \<open>Facts about balances\<close>

lemma sqlite_sum_prefixes:
  "\<forall>n \<le> length xs. - (2 ^ 63) \<le> acc + (\<Sum>x\<leftarrow>take n xs. sint x) \<and>
                      acc + (\<Sum>x\<leftarrow>take n xs. sint x) < 2 ^ 63
   \<Longrightarrow> sqlite_sum xs acc = Some (acc + (\<Sum>x\<leftarrow>xs. sint x))"
proof (induction xs arbitrary: acc)
  case Nil
  then show ?case by simp
next
  case (Cons x xs)
  from Cons.prems [rule_format, of 1]
  have r: "- (2 ^ 63) \<le> acc + sint x" "acc + sint x < 2 ^ 63" by simp_all
  have "\<forall>n \<le> length xs. - (2 ^ 63) \<le> (acc + sint x) + (\<Sum>y\<leftarrow>take n xs. sint y) \<and>
          (acc + sint x) + (\<Sum>y\<leftarrow>take n xs. sint y) < 2 ^ 63"
  proof (intro allI impI)
    fix n assume "n \<le> length xs"
    then have "Suc n \<le> length (x # xs)" by simp
    from Cons.prems [rule_format, OF this]
    show "- (2 ^ 63) \<le> (acc + sint x) + (\<Sum>y\<leftarrow>take n xs. sint y) \<and>
          (acc + sint x) + (\<Sum>y\<leftarrow>take n xs. sint y) < 2 ^ 63"
      by (simp add: add.assoc)
  qed
  from Cons.IH [OF this] r show ?case by (simp add: add.assoc)
qed

lemma sint_word_of_int_64:
  "- (2 ^ 63) \<le> s \<Longrightarrow> s < 2 ^ 63 \<Longrightarrow> sint (word_of_int s :: 64 word) = s"
  by (simp add: sint_sbintrunc' signed_take_bit_int_eq_self)

lemma getAccountBalance_rows:
  assumes "prepare_err d k = None" and "query_err d k = None" and "scan_err d k 0 = None"
    and "\<forall>n \<le> length (filter (\<lambda>r. l_account_id r = a \<and> l_deleted_at r = None) (transaction_lines db)).
           - (2 ^ 63) \<le> (\<Sum>r\<leftarrow>take n (filter (\<lambda>r. l_account_id r = a \<and> l_deleted_at r = None)
                                         (transaction_lines db)). sint (l_amount r)) \<and>
           (\<Sum>r\<leftarrow>take n (filter (\<lambda>r. l_account_id r = a \<and> l_deleted_at r = None)
                            (transaction_lines db)). sint (l_amount r)) < 2 ^ 63"
  shows "\<exists>b. getAccountBalance d k db a = Ok b \<and>
           sint b = (\<Sum>r\<leftarrow>filter (\<lambda>r. l_account_id r = a \<and> l_deleted_at r = None)
                          (transaction_lines db). sint (l_amount r)) \<and>
           (filter (\<lambda>r. l_account_id r = a \<and> l_deleted_at r = None) (transaction_lines db) = []
              \<longrightarrow> b = 0)"
proof -
  let ?rows = "filter (\<lambda>r. l_account_id r = a \<and> l_deleted_at r = None) (transaction_lines db)"
  let ?xs = "select_balance_amounts db a"
  let ?s = "\<Sum>r\<leftarrow>?rows. sint (l_amount r)"
  have xs: "?xs = map l_amount ?rows" by (simp add: select_balance_amounts_def)
  have "\<forall>n \<le> length ?xs. - (2 ^ 63) \<le> 0 + (\<Sum>x\<leftarrow>take n ?xs. sint x) \<and>
          0 + (\<Sum>x\<leftarrow>take n ?xs. sint x) < 2 ^ 63"
    using assms(4) by (simp add: xs take_map o_def)
  then have sum: "sqlite_sum ?xs 0 = Some (0 + (\<Sum>x\<leftarrow>?xs. sint x))"
    by (rule sqlite_sum_prefixes)
  have s: "(\<Sum>x\<leftarrow>?xs. sint x) = ?s" by (simp add: xs o_def)
  have range: "- (2 ^ 63) \<le> ?s \<and> ?s < 2 ^ 63"
    using assms(4) [rule_format, of "length ?rows"] by simp
  show ?thesis
  proof (cases ?xs)
    case Nil
    then have "?rows = []" by (simp add: xs)
    with Nil assms(1-3) show ?thesis by (simp add: getAccountBalance_def)
  next
    case (Cons x xs')
    then have ne: "?rows \<noteq> []" by (auto simp: xs)
    have "sqlite_sum (x # xs') 0 = Some ?s"
      using sum s Cons by simp
    then have "getAccountBalance d k db a = Ok (word_of_int ?s)"
      using assms(1-3) Cons by (simp add: getAccountBalance_def del: sqlite_sum.simps)
    with range ne show ?thesis by (simp add: sint_word_of_int_64)
  qed
qed

text \<open>
  C8 (as the code has it). Let \<open>rows\<close> be the non-deleted lines of the account, in table
  order, let every running sum of their amounts fit in an \<^verbatim>\<open>int64\<close>, and let no call
  into the database fail. Then \<^verbatim>\<open>getAccountBalance\<close> returns the sum of the amounts of
  \<open>rows\<close>, and 0 when the account has no such line.
\<close>

theorem getAccountBalance_sum:
  fixes db :: database and a :: string
  defines "rows \<equiv> filter (\<lambda>r. l_account_id r = a \<and> l_deleted_at r = None) (transaction_lines db)"
  assumes "prepare_err d k = None" and "query_err d k = None" and "scan_err d k 0 = None"
    and "\<forall>n \<le> length rows.
           - (2 ^ 63) \<le> (\<Sum>r\<leftarrow>take n rows. sint (l_amount r)) \<and>
           (\<Sum>r\<leftarrow>take n rows. sint (l_amount r)) < 2 ^ 63"
  shows "\<exists>b. getAccountBalance d k db a = Ok b \<and>
           sint b = (\<Sum>r\<leftarrow>rows. sint (l_amount r)) \<and> (rows = [] \<longrightarrow> b = 0)"
  using getAccountBalance_rows [of d k a db] assms unfolding rows_def by blast

theorem getAccountBalance_sum_witness:
  "(\<exists>b. getAccountBalance (no_faults (\<lambda>n. 900 + n)) 0 example_ledger ''A'' = Ok b \<and> sint b = 500) \<and>
   (\<exists>b. getAccountBalance (no_faults (\<lambda>n. 900 + n)) 0 example_ledger ''Z'' = Ok b \<and> b = 0)"
  using
    getAccountBalance_sum [where d = "no_faults (\<lambda>n. 900 + n)" and k = 0 and a = "''A''"
      and db = example_ledger]
    getAccountBalance_sum [where d = "no_faults (\<lambda>n. 900 + n)" and k = 0 and a = "''Z''"
      and db = example_ledger]
  by (simp add: no_faults_def example_ledger_def le_Suc_eq all_conj_distrib)

text \<open>
  C8 (as the specification states it) fails on a ledger in which the sum does not fit.
  After the postings \<^verbatim>\<open>{A: +9223372036854775807, B: -9223372036854775807}\<close> and
  \<^verbatim>\<open>{A: +1, B: -1}\<close> the sum of the lines of \<open>A\<close> is \<open>2 ^ 63\<close>; SQLite's \<^verbatim>\<open>sum()\<close>
  raises ``integer overflow'' and \<^verbatim>\<open>getAccountBalance\<close> returns that error.
\<close>

theorem getAccountBalance_overflow_counterexample:
  "getAccountBalance (no_faults (\<lambda>n. 900 + n)) 0
     \<lparr>transactions =
        [\<lparr>t_transaction_id = ''t1'', t_timestamp = 7, t_created_at = 100, t_deleted_at = None\<rparr>,
         \<lparr>t_transaction_id = ''t2'', t_timestamp = 8, t_created_at = 200, t_deleted_at = None\<rparr>],
      transaction_lines =
        [\<lparr>l_transaction_id = ''t1'', l_account_id = ''A'', l_purpose = ''transfer'',
          l_amount = 9223372036854775807, l_created_at = 101, l_deleted_at = None\<rparr>,
         \<lparr>l_transaction_id = ''t1'', l_account_id = ''B'', l_purpose = ''transfer'',
          l_amount = - 9223372036854775807, l_created_at = 102, l_deleted_at = None\<rparr>,
         \<lparr>l_transaction_id = ''t2'', l_account_id = ''A'', l_purpose = ''transfer'',
          l_amount = 1, l_created_at = 201, l_deleted_at = None\<rparr>,
         \<lparr>l_transaction_id = ''t2'', l_account_id = ''B'', l_purpose = ''transfer'',
          l_amount = - 1, l_created_at = 202, l_deleted_at = None\<rparr>]\<rparr>
     ''A''
   = Err (GetAccountBalanceFailed IntegerOverflow)"
  by (simp add: getAccountBalance_def select_balance_amounts_def no_faults_def)

section \<open>Facts about the transactions of an account\<close>

lemma distinct_rows_ids:
  "set (map l_transaction_id (distinct_rows seen rs)) = l_transaction_id ` set rs - set seen"
  by (induction rs arbitrary: seen) auto

lemma set_insert_desc: "set (insert_desc q x ys) = insert x (set ys)"
  by (induction ys) auto

lemma set_order_by_created_at_desc:
  "set (order_by_created_at_desc q ys xs) = set ys \<union> set xs"
  by (induction xs arbitrary: ys) (auto simp: set_insert_desc)

text \<open>Rows of equal \<^verbatim>\<open>created_at\<close> keep their table order, whatever the comparison is.\<close>

lemma insert_desc_tie:
  "\<forall>y \<in> set ys. l_created_at y = l_created_at x \<Longrightarrow> insert_desc q x ys = ys @ [x]"
  by (induction ys) auto

lemma order_by_created_at_desc_ties:
  "\<forall>x \<in> set (ys @ xs). l_created_at x = c \<Longrightarrow> order_by_created_at_desc q ys xs = ys @ xs"
proof (induction xs arbitrary: ys)
  case Nil
  then show ?case by simp
next
  case (Cons x xs)
  have "insert_desc q x ys = ys @ [x]"
    using Cons.prems by (intro insert_desc_tie) auto
  moreover have "order_by_created_at_desc q (ys @ [x]) xs = (ys @ [x]) @ xs"
    using Cons.prems by (intro Cons.IH) auto
  ultimately show ?case by simp
qed

text \<open>
  The ids that \<^verbatim>\<open>getAccountTransactions\<close> looks up are the transaction ids of all the
  lines of the account, deleted or not.
\<close>

lemma select_transaction_ids_set:
  "set (select_transaction_ids q db a) =
     l_transaction_id ` {r \<in> set (transaction_lines db). l_account_id r = a}"
proof -
  have "set (select_transaction_ids q db a) =
     set (map l_transaction_id
            (distinct_rows [] (filter (\<lambda>r. l_account_id r = a) (transaction_lines db))))"
    by (simp add: select_transaction_ids_def set_order_by_created_at_desc)
  also have "\<dots> = l_transaction_id ` set (filter (\<lambda>r. l_account_id r = a) (transaction_lines db))"
    by (simp only: distinct_rows_ids) simp
  finally show ?thesis by simp
qed

text \<open>
  C9. In the ledger below the only line of account \<open>A\<close> carries a deletion timestamp.
  \<^verbatim>\<open>getAccountTransactions\<close> for \<open>A\<close> still returns the transaction \<open>t1\<close> of that line
  (with the lines of \<open>t1\<close> that are not deleted): the statement that selects the ids has
  no \<^verbatim>\<open>deleted_at is null\<close>. This holds whatever SQLite's conversions \<open>q\<close> are.
\<close>

theorem getAccountTransactions_soft_deleted_line:
  "getAccountTransactions q (no_faults (\<lambda>n. 900 + n))
     \<lparr>transactions =
        [\<lparr>t_transaction_id = ''t1'', t_timestamp = 7, t_created_at = 100, t_deleted_at = None\<rparr>],
      transaction_lines =
        [\<lparr>l_transaction_id = ''t1'', l_account_id = ''A'', l_purpose = ''transfer'',
          l_amount = - 5, l_created_at = 101, l_deleted_at = Some 500\<rparr>,
         \<lparr>l_transaction_id = ''t1'', l_account_id = ''B'', l_purpose = ''transfer'',
          l_amount = 5, l_created_at = 102, l_deleted_at = None\<rparr>]\<rparr>
     ''A''
   = Ok [\<lparr>ID = ''t1'', Timestamp = 7,
          Lines = [\<lparr>AccountId = ''B'', Purpose = ''transfer'', Amount = 5\<rparr>]\<rparr>]"
  by (simp add: getAccountTransactions_def select_transaction_ids_def getTransaction_def
      select_timestamp_def select_lines_def no_faults_def scanned_line_def)

end
